theory Spec2Isabelle
  imports Main "HOL-Library.Sublist"
begin

section \<open>The call session of app.js\<close>

text \<open>
  app.js answers a call, connects it to a media endpoint and then reacts to the events
  that the endpoint emits. Everything the handlers do is either an assignment to one of
  two properties of the endpoint object (\<open>hangupAfterPlayDone\<close>, \<open>waitingForPlayStart\<close>)
  or a call on an object of a library (the logger, the endpoint, the SIP dialog, the
  timer queue). The model keeps the two properties as fields of a record and writes every
  library call, in order, into a trace.
\<close>

subsection \<open>Calls on library objects\<close>

datatype effect =
    LogInfo string              \<comment> \<open>\<open>logger.info(msg)\<close>\<close>
  | LogInfoBound string string  \<comment> \<open>\<open>logger.info({callId}, msg)\<close>\<close>
  | ConsoleLog string           \<comment> \<open>\<open>console.log\<close> of the unhandledRejection hook\<close>
  | Api string string           \<comment> \<open>\<open>endpoint.api(command, args)\<close>\<close>
  | Play string                 \<comment> \<open>\<open>endpoint.play(path)\<close>\<close>
  | SetTimeout nat              \<comment> \<open>\<open>setTimeout(callback, ms)\<close>\<close>
  | DialogDestroy               \<comment> \<open>\<open>dlg.destroy()\<close>: destroy() of the SIP dialog, i.e. of the call\<close>
  | EndpointDestroy             \<comment> \<open>\<open>endpoint.destroy()\<close>: destroy() of the media endpoint\<close>

datatype error =
    TypeError string    \<comment> \<open>a property read on \<open>undefined\<close>; the string names the property\<close>
  | Rejected string     \<comment> \<open>an awaited promise was rejected\<close>
  | NothingPending      \<comment> \<open>a timer or a playback completion with no callback waiting for it\<close>

text \<open>
  A failure is the error together with the library calls made up to it: what a handler
  has logged before it throws is not undone by the exception.
\<close>

type_synonym failure = "error \<times> effect list"

subsection \<open>Event payloads\<close>

text \<open>
  The payloads are JavaScript objects. The handlers read
  \<open>intent.query_result.intent.end_interaction\<close>,
  \<open>transcription.recognition_result.is_final\<close> and \<open>audio.path\<close>, and pass the whole
  object to \<open>JSON.stringify\<close>. An object on the path may be missing (\<open>None\<close>); the
  innermost values are only tested for truthiness, so they are booleans here. The text
  that \<open>JSON.stringify\<close> returns is carried along as a string.
\<close>

datatype intent_body = IntentBody (end_interaction: bool)

datatype query_result = QueryResult (qr_intent: "intent_body option")

datatype intent_event =
  IntentEvent (intent_json: string) (query_result: "query_result option")

datatype recognition_result = RecognitionResult (is_final: bool)

datatype transcription_event =
  TranscriptionEvent (transcription_json: string)
    (recognition_result: "recognition_result option")

datatype audio = Audio (path: string)

subsection \<open>The session\<close>

text \<open>
  \<open>uuid\<close> is \<open>endpoint.uuid\<close>. The two flags are \<open>undefined\<close> on a fresh endpoint and
  only ever tested for truthiness, so \<open>undefined\<close> is \<open>False\<close>. \<open>timers\<close> counts the
  callbacks handed to \<open>setTimeout\<close> that have not run yet, \<open>playing\<close> the invocations
  of \<open>handleAudio\<close> suspended at \<open>await this.play(...)\<close>; all callbacks of one kind
  are the same closure over the same endpoint and dialog, so a count identifies them.
\<close>

record session =
  uuid :: string
  hangupAfterPlayDone :: bool
  waitingForPlayStart :: bool
  timers :: nat
  playing :: nat
  trace :: "effect list"

definition emit :: "effect \<Rightarrow> session \<Rightarrow> session" where
  "emit x s = s\<lparr>trace := trace s @ [x]\<rparr>"

subsection \<open>handleInvite\<close>

text \<open>
  Line 58 is \<open>await srf.locals.ms.connectCaller(...)\<close>. \<open>srf.locals.ms\<close> is set once
  the media server has connected (line 40); before that it is \<open>undefined\<close> and the
  property read throws. Otherwise the promise of \<open>connectCaller\<close> is rejected or is
  fulfilled with a new endpoint, given here by its uuid.
\<close>

datatype connect_outcome = MsUndefined | ConnectRejected | Connected string

text \<open>
  The incoming call is logged first (line 55). When line 58 throws or rejects, the
  promise of \<open>handleInvite\<close> is rejected: no handler is registered, and the
  unhandledRejection hook of line 16 writes to the console. The handlers registered in
  lines 68 to 78 are the cases of \<open>step\<close> below.
\<close>

definition handleInvite :: "string \<Rightarrow> string \<Rightarrow> connect_outcome \<Rightarrow> failure + session" where
  "handleInvite callId uri connected =
     (let received = LogInfoBound callId (''received incoming call: '' @ uri) in
      case connected of
        MsUndefined \<Rightarrow>
          Inl (TypeError ''connectCaller'',
               [received, ConsoleLog ''Unhandled Rejection at: Promise''])
      | ConnectRejected \<Rightarrow>
          Inl (Rejected ''connectCaller'',
               [received, ConsoleLog ''Unhandled Rejection at: Promise''])
      | Connected ep \<Rightarrow>
          Inr \<lparr>uuid = ep, hangupAfterPlayDone = False, waitingForPlayStart = False,
               timers = 0, playing = 0,
               trace = [received,
                        Api ''dialogflow_start'' (ep @ '' rising-af044 en-US 20 welcome'')]\<rparr>)"

subsection \<open>The event handlers\<close>

definition timerCallback :: "session \<Rightarrow> session" where
  "timerCallback s = (if waitingForPlayStart s then emit DialogDestroy s else s)"

text \<open>
  \<open>handleIntent\<close> logs the intent (line 93) before it reads
  \<open>intent.query_result.intent.end_interaction\<close> (line 94): when an object on that path
  is missing, the log line has been written and the read throws.
\<close>

definition handleIntent :: "intent_event \<Rightarrow> session \<Rightarrow> failure + session" where
  "handleIntent i s =
     (let s1 = emit (LogInfo (''got intent: '' @ intent_json i)) s in
      case query_result i of
        None \<Rightarrow> Inl (TypeError ''intent'', trace s1)
      | Some qr \<Rightarrow>
          (case qr_intent qr of
             None \<Rightarrow> Inl (TypeError ''end_interaction'', trace s1)
           | Some b \<Rightarrow>
               if end_interaction b
               then Inr (emit (SetTimeout 1000)
                          (s1\<lparr>hangupAfterPlayDone := True, waitingForPlayStart := True,
                              timers := Suc (timers s1)\<rparr>))
               else Inr s1))"

definition handleTranscription :: "transcription_event \<Rightarrow> session \<Rightarrow> failure + session" where
  "handleTranscription t s =
     (case recognition_result t of
        None \<Rightarrow> Inl (TypeError ''is_final'', trace s)
      | Some r \<Rightarrow>
          if is_final r
          then Inr (emit (LogInfo (''got transcription: '' @ transcription_json t)) s)
          else Inr s)"

text \<open>
  \<open>handleAudio\<close> is an async function: \<open>handleAudio\<close> is the part that runs when the event
  is emitted, up to the \<open>await\<close>; \<open>handleAudio_resume\<close> is the part after the \<open>await\<close>,
  run when the promise of \<open>play\<close> is fulfilled; \<open>handleAudio_rejected\<close> is what happens
  when that promise is rejected (nothing of the function runs, the rejection reaches
  the unhandledRejection hook of line 16). Other handlers may run in between.
\<close>

definition handleAudio :: "audio \<Rightarrow> session \<Rightarrow> session" where
  "handleAudio a s =
     (let s1 = emit (LogInfo (''got audio file to play: '' @ path a)) s;
          s2 = s1\<lparr>waitingForPlayStart := False\<rparr>
      in emit (Play (path a)) (s2\<lparr>playing := Suc (playing s2)\<rparr>))"

definition handleAudio_resume :: "session \<Rightarrow> session" where
  "handleAudio_resume s =
     (if hangupAfterPlayDone s then emit DialogDestroy s
      else emit (Api ''dialogflow_start'' (uuid s @ '' rising-af044 en-US 20'')) s)"

definition handleAudio_rejected :: "session \<Rightarrow> session" where
  "handleAudio_rejected s = emit (ConsoleLog ''Unhandled Rejection at: Promise'') s"

definition handleEndOfUtterance :: "string \<Rightarrow> session \<Rightarrow> session" where
  "handleEndOfUtterance obj_json s = emit (LogInfo (''got end of utterance: '' @ obj_json)) s"

definition handleError :: "string \<Rightarrow> session \<Rightarrow> session" where
  "handleError error_json s = emit (LogInfo (''got error: '' @ error_json)) s"

text \<open>
  The listener of the dialog's \<open>destroy\<close> event (lines 75 to 78). The dialog emits the
  event when the caller ends the call, as the listener's own log line says. It is the
  only place of app.js that calls \<open>endpoint.destroy()\<close>. When app.js itself ends the
  call it calls \<open>dlg.destroy()\<close>, a call on the library like any other
  (\<open>DialogDestroy\<close>), and no line of app.js runs in response to it.
\<close>

definition onDialogDestroy :: "session \<Rightarrow> session" where
  "onDialogDestroy s = emit EndpointDestroy (emit (LogInfo ''got BYE from caller, hangup'') s)"

subsection \<open>Delivery of events\<close>

text \<open>
  What can happen to a session: the endpoint emits one of the five events that
  \<open>handleInvite\<close> listens to, the dialog emits \<open>destroy\<close>, a timer armed by
  \<open>handleIntent\<close> fires, or a playback started by \<open>handleAudio\<close> ends. Node runs one
  callback at a time, to its end or to its next \<open>await\<close>. An exception thrown by a
  listener leaves the listener and is caught nowhere in app.js.
\<close>

datatype event =
    Intent intent_event
  | Transcription transcription_event
  | AudioProvided audio
  | EndOfUtterance string
  | DialogflowError string
  | CallerBye
  | TimerFire
  | PlayDone
  | PlayRejected

text \<open>
  The name under which \<open>handleInvite\<close> registers the listener of an event (lines 68 to
  75): the first five on the endpoint, \<open>destroy\<close> on the dialog. A timer and the end of
  a playback are callbacks, not events of an emitter.
\<close>

fun event_name :: "event \<Rightarrow> string option" where
  "event_name (Intent _) = Some ''dialogflow::intent''"
| "event_name (Transcription _) = Some ''dialogflow::transcription''"
| "event_name (AudioProvided _) = Some ''dialogflow::audio_provided''"
| "event_name (EndOfUtterance _) = Some ''dialogflow::end_of_utterance''"
| "event_name (DialogflowError _) = Some ''dialogflow::error''"
| "event_name CallerBye = Some ''destroy''"
| "event_name _ = None"

text \<open>The custom events that line 12 asks the media server library for.\<close>

definition customEvents :: "string list" where
  "customEvents = [''dialogflow::intent'', ''dialogflow::transcription'',
                   ''dialogflow::end_of_utterance'', ''dialogflow::audio_provided'']"

fun step :: "event \<Rightarrow> session \<Rightarrow> failure + session" where
  "step (Intent i) s = handleIntent i s"
| "step (Transcription t) s = handleTranscription t s"
| "step (AudioProvided a) s = Inr (handleAudio a s)"
| "step (EndOfUtterance j) s = Inr (handleEndOfUtterance j s)"
| "step (DialogflowError j) s = Inr (handleError j s)"
| "step CallerBye s = Inr (onDialogDestroy s)"
| "step TimerFire s =
     (if timers s = 0 then Inl (NothingPending, trace s)
      else Inr (timerCallback (s\<lparr>timers := timers s - 1\<rparr>)))"
| "step PlayDone s =
     (if playing s = 0 then Inl (NothingPending, trace s)
      else Inr (handleAudio_resume (s\<lparr>playing := playing s - 1\<rparr>)))"
| "step PlayRejected s =
     (if playing s = 0 then Inl (NothingPending, trace s)
      else Inr (handleAudio_rejected (s\<lparr>playing := playing s - 1\<rparr>)))"

fun run :: "event list \<Rightarrow> session \<Rightarrow> failure + session" where
  "run [] s = Inr s"
| "run (e # es) s = (case step e s of Inl err \<Rightarrow> Inl err | Inr s' \<Rightarrow> run es s')"

subsection \<open>Reading a trace\<close>

fun is_api :: "effect \<Rightarrow> bool" where
  "is_api (Api _ _) = True"
| "is_api _ = False"

fun is_play :: "effect \<Rightarrow> bool" where
  "is_play (Play _) = True"
| "is_play _ = False"

text \<open>The effects a session has added to its trace since an earlier state of it.\<close>

definition since :: "session \<Rightarrow> session \<Rightarrow> effect list" where
  "since s s' = drop (length (trace s)) (trace s')"

text \<open>
  The events whose handler only logs: a transcription, an end of utterance, an error,
  and an intent that does not end the interaction (each with the objects its handler
  reads present).
\<close>

fun quiet :: "event \<Rightarrow> bool" where
  "quiet (Intent i) =
     (case query_result i of
        None \<Rightarrow> False
      | Some qr \<Rightarrow> (case qr_intent qr of None \<Rightarrow> False | Some b \<Rightarrow> \<not> end_interaction b))"
| "quiet (Transcription t) = (recognition_result t \<noteq> None)"
| "quiet (EndOfUtterance _) = True"
| "quiet (DialogflowError _) = True"
| "quiet _ = False"

text \<open>An intent whose \<open>query_result.intent.end_interaction\<close> is true.\<close>

definition ends_interaction :: "intent_event \<Rightarrow> bool" where
  "ends_interaction i =
     (case query_result i of
        None \<Rightarrow> False
      | Some qr \<Rightarrow> (case qr_intent qr of None \<Rightarrow> False | Some b \<Rightarrow> end_interaction b))"

text \<open>
  The whole life of a call: \<open>handleInvite\<close>, then the events in the order in which
  Node delivers them.
\<close>

definition call :: "string \<Rightarrow> string \<Rightarrow> connect_outcome \<Rightarrow> event list \<Rightarrow> failure + session" where
  "call callId uri connected es =
     (case handleInvite callId uri connected of Inl err \<Rightarrow> Inl err | Inr s \<Rightarrow> run es s)"

text \<open>The library calls made in a run, whether it ended in a failure or not.\<close>

definition effects_of :: "failure + session \<Rightarrow> effect list" where
  "effects_of r = (case r of Inl f \<Rightarrow> snd f | Inr s \<Rightarrow> trace s)"

fun is_audio :: "event \<Rightarrow> bool" where
  "is_audio (AudioProvided _) = True"
| "is_audio _ = False"

fun is_end_intent :: "event \<Rightarrow> bool" where
  "is_end_intent (Intent i) = ends_interaction i"
| "is_end_intent _ = False"

text \<open>The two ways in which the promise of \<open>play\<close> is settled.\<close>

fun ends_playback :: "event \<Rightarrow> bool" where
  "ends_playback PlayDone = True"
| "ends_playback PlayRejected = True"
| "ends_playback _ = False"

section \<open>Properties\<close>

subsection \<open>The effect of each event\<close>

lemma run_append:
  "run (es @ fs) s = (case run es s of Inl err \<Rightarrow> Inl err | Inr s' \<Rightarrow> run fs s')"
  by (induction es arbitrary: s) (auto split: sum.splits)

lemma step_Intent_ends:
  assumes "ends_interaction i"
  shows "step (Intent i) s =
    Inr (s\<lparr>hangupAfterPlayDone := True, waitingForPlayStart := True,
           timers := Suc (timers s),
           trace := trace s @ [LogInfo (''got intent: '' @ intent_json i), SetTimeout 1000]\<rparr>)"
  using assms
  by (auto simp: ends_interaction_def handleIntent_def emit_def split: option.splits)

lemma step_Intent_quiet:
  assumes "quiet (Intent i)"
  shows "step (Intent i) s = Inr (s\<lparr>trace := trace s @ [LogInfo (''got intent: '' @ intent_json i)]\<rparr>)"
  using assms
  by (auto simp: handleIntent_def emit_def split: option.splits)

lemma step_TimerFire:
  assumes "0 < timers s"
  shows "step TimerFire s =
    Inr (s\<lparr>timers := timers s - 1,
           trace := trace s @ (if waitingForPlayStart s then [DialogDestroy] else [])\<rparr>)"
  using assms by (simp add: timerCallback_def emit_def)

lemma step_AudioProvided:
  "step (AudioProvided a) s =
    Inr (s\<lparr>waitingForPlayStart := False, playing := Suc (playing s),
           trace := trace s @ [LogInfo (''got audio file to play: '' @ path a), Play (path a)]\<rparr>)"
  by (simp add: handleAudio_def emit_def)

lemma step_PlayDone:
  assumes "0 < playing s"
  shows "step PlayDone s =
    Inr (s\<lparr>playing := playing s - 1,
           trace := trace s @
             [if hangupAfterPlayDone s then DialogDestroy
              else Api ''dialogflow_start'' (uuid s @ '' rising-af044 en-US 20'')]\<rparr>)"
  using assms by (simp add: handleAudio_resume_def emit_def)

lemma step_CallerBye:
  "step CallerBye s =
    Inr (s\<lparr>trace := trace s @ [LogInfo ''got BYE from caller, hangup'', EndpointDestroy]\<rparr>)"
  by (simp add: onDialogDestroy_def emit_def)

subsection \<open>A playback stays pending until it ends\<close>

lemma step_playing:
  assumes "step e s = Inr s'" "\<not> ends_playback e"
  shows "playing s \<le> playing s'"
proof (cases e)
  case (Intent i)
  with assms show ?thesis
    by (auto simp: handleIntent_def emit_def Let_def split: option.splits if_splits)
next
  case (Transcription t)
  with assms show ?thesis
    by (auto simp: handleTranscription_def emit_def split: option.splits if_splits)
next
  case (AudioProvided a)
  with assms show ?thesis by (auto simp: handleAudio_def emit_def Let_def)
next
  case (EndOfUtterance j)
  with assms show ?thesis by (auto simp: handleEndOfUtterance_def emit_def)
next
  case (DialogflowError j)
  with assms show ?thesis by (auto simp: handleError_def emit_def)
next
  case CallerBye
  with assms show ?thesis by (auto simp: onDialogDestroy_def emit_def)
next
  case TimerFire
  with assms show ?thesis by (auto simp: timerCallback_def emit_def split: if_splits)
qed (use assms in auto)

lemma run_playing:
  assumes "run es s = Inr s'" "list_all (\<lambda>e. \<not> ends_playback e) es"
  shows "playing s \<le> playing s'"
  using assms
proof (induction es arbitrary: s)
  case Nil
  then show ?case by simp
next
  case (Cons e es)
  from Cons.prems obtain s1 where s1: "step e s = Inr s1" and r: "run es s1 = Inr s'"
    by (auto split: sum.splits)
  from Cons.prems have e: "\<not> ends_playback e" and es: "list_all (\<lambda>e. \<not> ends_playback e) es"
    by simp_all
  from step_playing [OF s1 e] Cons.IH [OF r es] show ?case by simp
qed

subsection \<open>After an end of interaction and an audio clip\<close>

text \<open>
  Only \<open>handleIntent\<close> sets \<open>waitingForPlayStart\<close>, and only for an intent that ends
  the interaction. Until such an intent arrives the flag stays false, a timer that
  fires finds it false, and the calls of \<open>dlg.destroy()\<close> are those of the playbacks
  that end.
\<close>

lemma step_after_audio:
  assumes "\<not> waitingForPlayStart s" "hangupAfterPlayDone s" "\<not> is_end_intent e"
    and "step e s = Inr s'"
  shows "\<not> waitingForPlayStart s' \<and> hangupAfterPlayDone s' \<and>
    (\<exists>l. trace s' = trace s @ l \<and>
       count_list l DialogDestroy = (if e = PlayDone then 1 else 0))"
proof (cases e)
  case (Intent i)
  with assms show ?thesis
    by (auto simp: handleIntent_def ends_interaction_def emit_def Let_def
        split: option.splits if_splits)
next
  case (Transcription t)
  with assms show ?thesis
    by (auto simp: handleTranscription_def emit_def split: option.splits if_splits)
next
  case (AudioProvided a)
  with assms show ?thesis by (auto simp: handleAudio_def emit_def Let_def)
next
  case (EndOfUtterance j)
  with assms show ?thesis by (auto simp: handleEndOfUtterance_def emit_def)
next
  case (DialogflowError j)
  with assms show ?thesis by (auto simp: handleError_def emit_def)
next
  case CallerBye
  with assms show ?thesis by (auto simp: onDialogDestroy_def emit_def)
next
  case TimerFire
  with assms show ?thesis by (auto simp: timerCallback_def emit_def split: if_splits)
next
  case PlayDone
  with assms show ?thesis by (auto simp: handleAudio_resume_def emit_def split: if_splits)
next
  case PlayRejected
  with assms show ?thesis by (auto simp: handleAudio_rejected_def emit_def split: if_splits)
qed

lemma run_after_audio:
  assumes "\<not> waitingForPlayStart s" "hangupAfterPlayDone s"
    and "list_all (\<lambda>e. \<not> is_end_intent e) es" and "run es s = Inr s'"
  shows "\<not> waitingForPlayStart s' \<and> hangupAfterPlayDone s' \<and>
    (\<exists>l. trace s' = trace s @ l \<and> count_list l DialogDestroy = count_list es PlayDone)"
  using assms
proof (induction es arbitrary: s)
  case Nil
  then show ?case by simp
next
  case (Cons e es)
  from Cons.prems obtain s1 where s1: "step e s = Inr s1" and r: "run es s1 = Inr s'"
    by (auto split: sum.splits)
  from Cons.prems have e: "\<not> is_end_intent e" and es: "list_all (\<lambda>e. \<not> is_end_intent e) es"
    by simp_all
  from step_after_audio [OF Cons.prems(1,2) e s1] obtain l1
    where 1: "\<not> waitingForPlayStart s1" "hangupAfterPlayDone s1" "trace s1 = trace s @ l1"
      "count_list l1 DialogDestroy = (if e = PlayDone then 1 else 0)" by blast
  from Cons.IH [OF 1(1,2) es r] obtain l2
    where 2: "\<not> waitingForPlayStart s'" "hangupAfterPlayDone s'" "trace s' = trace s1 @ l2"
      "count_list l2 DialogDestroy = count_list es PlayDone" by blast
  have "trace s' = trace s @ (l1 @ l2)" using 1 2 by simp
  moreover have "count_list (l1 @ l2) DialogDestroy = count_list (e # es) PlayDone"
    using 1(4) 2(4) by simp
  ultimately show ?case using 2(1,2) by blast
qed

subsection \<open>After an end of interaction and no audio clip\<close>

text \<open>
  Only \<open>handleAudio\<close> clears \<open>waitingForPlayStart\<close>. Until an audio clip arrives the
  flag stays true: every timer that fires and every playback that ends calls
  \<open>dlg.destroy()\<close> once, every BYE of the caller calls \<open>endpoint.destroy()\<close> once, and
  nothing else calls either. A timer is armed by each intent that ends the interaction
  and used up when it fires.
\<close>

lemma step_no_audio:
  assumes "waitingForPlayStart s" "hangupAfterPlayDone s" "\<not> is_audio e"
    and "step e s = Inr s'"
  shows "waitingForPlayStart s' \<and> hangupAfterPlayDone s' \<and>
    timers s' + (if e = TimerFire then 1 else 0) = timers s + (if is_end_intent e then 1 else 0) \<and>
    (\<exists>l. trace s' = trace s @ l \<and>
       count_list l DialogDestroy = (if e = TimerFire \<or> e = PlayDone then 1 else 0) \<and>
       count_list l EndpointDestroy = (if e = CallerBye then 1 else 0))"
proof (cases e)
  case (Intent i)
  with assms show ?thesis
    by (auto simp: handleIntent_def ends_interaction_def emit_def Let_def
        split: option.splits if_splits)
next
  case (Transcription t)
  with assms show ?thesis
    by (auto simp: handleTranscription_def emit_def split: option.splits if_splits)
next
  case (EndOfUtterance j)
  with assms show ?thesis by (auto simp: handleEndOfUtterance_def emit_def)
next
  case (DialogflowError j)
  with assms show ?thesis by (auto simp: handleError_def emit_def)
next
  case CallerBye
  with assms show ?thesis by (auto simp: onDialogDestroy_def emit_def)
next
  case TimerFire
  with assms show ?thesis by (auto simp: timerCallback_def emit_def split: if_splits)
next
  case PlayDone
  with assms show ?thesis by (auto simp: handleAudio_resume_def emit_def split: if_splits)
next
  case PlayRejected
  with assms show ?thesis by (auto simp: handleAudio_rejected_def emit_def split: if_splits)
qed (use assms in auto)

lemma run_no_audio:
  assumes "waitingForPlayStart s" "hangupAfterPlayDone s"
    and "list_all (\<lambda>e. \<not> is_audio e) es" and "run es s = Inr s'"
  shows "waitingForPlayStart s' \<and> hangupAfterPlayDone s' \<and>
    timers s' + count_list es TimerFire = timers s + length (filter is_end_intent es) \<and>
    (\<exists>l. trace s' = trace s @ l \<and>
       count_list l DialogDestroy = count_list es TimerFire + count_list es PlayDone \<and>
       count_list l EndpointDestroy = count_list es CallerBye)"
  using assms
proof (induction es arbitrary: s)
  case Nil
  then show ?case by simp
next
  case (Cons e es)
  from Cons.prems obtain s1 where s1: "step e s = Inr s1" and r: "run es s1 = Inr s'"
    by (auto split: sum.splits)
  from Cons.prems have e: "\<not> is_audio e" and es: "list_all (\<lambda>e. \<not> is_audio e) es"
    by simp_all
  from step_no_audio [OF Cons.prems(1,2) e s1] obtain l1
    where 1: "waitingForPlayStart s1" "hangupAfterPlayDone s1"
      "timers s1 + (if e = TimerFire then 1 else 0) = timers s + (if is_end_intent e then 1 else 0)"
      "trace s1 = trace s @ l1"
      "count_list l1 DialogDestroy = (if e = TimerFire \<or> e = PlayDone then 1 else 0)"
      "count_list l1 EndpointDestroy = (if e = CallerBye then 1 else 0)" by blast
  from Cons.IH [OF 1(1,2) es r] obtain l2
    where 2: "waitingForPlayStart s'" "hangupAfterPlayDone s'"
      "timers s' + count_list es TimerFire = timers s1 + length (filter is_end_intent es)"
      "trace s' = trace s1 @ l2"
      "count_list l2 DialogDestroy = count_list es TimerFire + count_list es PlayDone"
      "count_list l2 EndpointDestroy = count_list es CallerBye" by blast
  have t: "timers s' + count_list (e # es) TimerFire =
      timers s + length (filter is_end_intent (e # es))"
    using 1(3) 2(3) by (simp split: if_splits)
  have "trace s' = trace s @ (l1 @ l2)" using 1 2 by simp
  moreover have "count_list (l1 @ l2) DialogDestroy =
      count_list (e # es) TimerFire + count_list (e # es) PlayDone"
    using 1(5) 2(5) by (auto split: if_splits)
  moreover have "count_list (l1 @ l2) EndpointDestroy = count_list (e # es) CallerBye"
    using 1(6) 2(6) by simp
  ultimately show ?case using 2(1,2) t by blast
qed

subsection \<open>What a single event can add to the trace\<close>

lemma step_api:
  assumes "step e s = Inr s'"
  shows "uuid s' = uuid s \<and>
    (\<exists>l n. trace s' = trace s @ l \<and>
      filter is_api l = replicate n (Api ''dialogflow_start'' (uuid s @ '' rising-af044 en-US 20'')))"
proof (cases e)
  case PlayDone
  with assms have p: "0 < playing s" by (auto split: if_splits)
  from step_PlayDone [OF p] assms PlayDone
  have s': "s' = s\<lparr>playing := playing s - 1,
           trace := trace s @
             [if hangupAfterPlayDone s then DialogDestroy
              else Api ''dialogflow_start'' (uuid s @ '' rising-af044 en-US 20'')]\<rparr>"
    by (simp del: step.simps)
  have u: "uuid s' = uuid s" using s' by simp
  show ?thesis
  proof (cases "hangupAfterPlayDone s")
    case True
    have "\<exists>l n. trace s' = trace s @ l \<and>
      filter is_api l = replicate n (Api ''dialogflow_start'' (uuid s @ '' rising-af044 en-US 20''))"
      by (rule exI [of _ "[DialogDestroy]"], rule exI [of _ "0::nat"]) (simp add: s' True)
    with u show ?thesis by simp
  next
    case False
    have "\<exists>l n. trace s' = trace s @ l \<and>
      filter is_api l = replicate n (Api ''dialogflow_start'' (uuid s @ '' rising-af044 en-US 20''))"
      by (rule exI [of _ "[Api ''dialogflow_start'' (uuid s @ '' rising-af044 en-US 20'')]"],
          rule exI [of _ "Suc 0"]) (simp add: s' False)
    with u show ?thesis by simp
  qed
next
  case (Intent i)
  with assms show ?thesis
    by (auto simp: handleIntent_def emit_def Let_def intro!: exI [of _ "0::nat"]
        split: option.splits if_splits)
next
  case (Transcription t)
  with assms show ?thesis
    by (auto simp: handleTranscription_def emit_def intro!: exI [of _ "0::nat"]
        split: option.splits if_splits)
next
  case (AudioProvided a)
  with assms show ?thesis
    by (auto simp: handleAudio_def emit_def Let_def intro!: exI [of _ "0::nat"])
next
  case (EndOfUtterance j)
  with assms show ?thesis
    by (auto simp: handleEndOfUtterance_def emit_def intro!: exI [of _ "0::nat"])
next
  case (DialogflowError j)
  with assms show ?thesis by (auto simp: handleError_def emit_def intro!: exI [of _ "0::nat"])
next
  case CallerBye
  with assms show ?thesis by (auto simp: onDialogDestroy_def emit_def intro!: exI [of _ "0::nat"])
next
  case TimerFire
  with assms show ?thesis
    by (auto simp: timerCallback_def emit_def intro!: exI [of _ "0::nat"] split: if_splits)
next
  case PlayRejected
  with assms show ?thesis
    by (auto simp: handleAudio_rejected_def emit_def intro!: exI [of _ "0::nat"] split: if_splits)
qed

lemma run_api:
  assumes "run es s = Inr s'"
  shows "uuid s' = uuid s \<and>
    (\<exists>l n. trace s' = trace s @ l \<and>
      filter is_api l = replicate n (Api ''dialogflow_start'' (uuid s @ '' rising-af044 en-US 20'')))"
  using assms
proof (induction es arbitrary: s)
  case Nil
  then show ?case by (auto intro: exI [of _ "0::nat"])
next
  case (Cons e es)
  from Cons.prems obtain s1 where s1: "step e s = Inr s1" and r: "run es s1 = Inr s'"
    by (auto split: sum.splits)
  from step_api [OF s1] obtain l1 n1 where 1: "uuid s1 = uuid s" "trace s1 = trace s @ l1"
    "filter is_api l1 = replicate n1 (Api ''dialogflow_start'' (uuid s @ '' rising-af044 en-US 20''))"
    by blast
  from Cons.IH [OF r] 1(1) obtain l2 n2 where 2: "uuid s' = uuid s" "trace s' = trace s1 @ l2"
    "filter is_api l2 = replicate n2 (Api ''dialogflow_start'' (uuid s @ '' rising-af044 en-US 20''))"
    by auto
  have "trace s' = trace s @ (l1 @ l2)" using 1 2 by simp
  moreover have "filter is_api (l1 @ l2) =
      replicate (n1 + n2) (Api ''dialogflow_start'' (uuid s @ '' rising-af044 en-US 20''))"
    using 1 2 by (simp add: replicate_add)
  ultimately show ?case using 2(1) by blast
qed

lemma step_hangup:
  assumes "hangupAfterPlayDone s" "step e s = Inr s'"
  shows "hangupAfterPlayDone s' \<and> (\<exists>l. trace s' = trace s @ l \<and> filter is_api l = [])"
proof (cases e)
  case PlayDone
  with assms have p: "0 < playing s" by (auto split: if_splits)
  from step_PlayDone [OF p] assms PlayDone show ?thesis
    by (auto simp del: step.simps)
next
  case (Intent i)
  with assms show ?thesis
    by (auto simp: handleIntent_def emit_def Let_def split: option.splits if_splits)
next
  case (Transcription t)
  with assms show ?thesis
    by (auto simp: handleTranscription_def emit_def split: option.splits if_splits)
next
  case (AudioProvided a)
  with assms show ?thesis
    by (auto simp: handleAudio_def emit_def Let_def)
next
  case (EndOfUtterance j)
  with assms show ?thesis
    by (auto simp: handleEndOfUtterance_def emit_def)
next
  case (DialogflowError j)
  with assms show ?thesis by (auto simp: handleError_def emit_def)
next
  case CallerBye
  with assms show ?thesis by (auto simp: onDialogDestroy_def emit_def)
next
  case TimerFire
  with assms show ?thesis
    by (auto simp: timerCallback_def emit_def split: if_splits)
next
  case PlayRejected
  with assms show ?thesis
    by (auto simp: handleAudio_rejected_def emit_def split: if_splits)
qed

lemma run_hangup:
  assumes "hangupAfterPlayDone s" "run es s = Inr s'"
  shows "hangupAfterPlayDone s' \<and> (\<exists>l. trace s' = trace s @ l \<and> filter is_api l = [])"
  using assms
proof (induction es arbitrary: s)
  case Nil
  then show ?case by auto
next
  case (Cons e es)
  from Cons.prems obtain s1 where s1: "step e s = Inr s1" and r: "run es s1 = Inr s'"
    by (auto split: sum.splits)
  from step_hangup [OF Cons.prems(1) s1] obtain l1
    where 1: "hangupAfterPlayDone s1" "trace s1 = trace s @ l1" "filter is_api l1 = []" by blast
  from Cons.IH [OF 1(1) r] obtain l2
    where 2: "hangupAfterPlayDone s'" "trace s' = trace s1 @ l2" "filter is_api l2 = []" by blast
  have "trace s' = trace s @ (l1 @ l2)" using 1 2 by simp
  moreover have "filter is_api (l1 @ l2) = []" using 1 2 by simp
  ultimately show ?case using 2(1) by blast
qed

lemma step_no_turn_no_play:
  assumes "step e s = Inr s'" "\<not> is_audio e" "e \<noteq> PlayDone"
  shows "\<exists>l. trace s' = trace s @ l \<and> filter (\<lambda>x. is_api x \<or> is_play x) l = []"
proof (cases e)
  case (Intent i)
  with assms show ?thesis
    by (auto simp: handleIntent_def emit_def Let_def split: option.splits if_splits)
next
  case (Transcription t)
  with assms show ?thesis
    by (auto simp: handleTranscription_def emit_def split: option.splits if_splits)
next
  case (EndOfUtterance j)
  with assms show ?thesis by (auto simp: handleEndOfUtterance_def emit_def)
next
  case (DialogflowError j)
  with assms show ?thesis by (auto simp: handleError_def emit_def)
next
  case CallerBye
  with assms show ?thesis by (auto simp: onDialogDestroy_def emit_def)
next
  case TimerFire
  with assms show ?thesis by (auto simp: timerCallback_def emit_def split: if_splits)
next
  case PlayRejected
  with assms show ?thesis by (auto simp: handleAudio_rejected_def emit_def split: if_splits)
qed (use assms in auto)

lemma not_suffix_welcome: "\<not> suffix '' welcome'' (ep @ '' rising-af044 en-US 20'')"
proof
  assume "suffix '' welcome'' (ep @ '' rising-af044 en-US 20'')"
  then obtain zs where "ep @ '' rising-af044 en-US 20'' = zs @ '' welcome''"
    unfolding suffix_def by blast
  then have "last (ep @ '' rising-af044 en-US 20'') = last (zs @ '' welcome'')"
    by (rule arg_cong)
  then show False by simp
qed

text \<open>
  The definitions of the handlers, for evaluating a run on concrete events.
\<close>

lemmas handler_defs =
  handleInvite_def handleIntent_def handleTranscription_def handleAudio_def
  handleAudio_resume_def handleAudio_rejected_def handleEndOfUtterance_def handleError_def
  onDialogDestroy_def timerCallback_def emit_def

text \<open>
  Line 6 to 11 of app.js name the custom events that the media server library is asked
  for. \<open>dialogflow::error\<close> is not among them, although line 72 registers a listener
  for it; whether the library emits an event it was not asked for is decided outside
  app.js. The properties below are about events that reach their listener.
\<close>

lemma error_event_not_in_customEvents:
  "event_name (DialogflowError detail) = Some ''dialogflow::error''
   \<and> ''dialogflow::error'' \<notin> set customEvents
   \<and> event_name (Intent i) \<in> Some ` set customEvents
   \<and> event_name (Transcription t) \<in> Some ` set customEvents
   \<and> event_name (AudioProvided a) \<in> Some ` set customEvents
   \<and> event_name (EndOfUtterance obj) \<in> Some ` set customEvents"
  by (simp add: customEvents_def)

section \<open>The claims\<close>

text \<open>
  C1 (as amended). An \<open>audio_provided\<close> event, in any state of the session, sets
  \<open>waitingForPlayStart\<close> to false and plays the clip on the endpoint. The playback
  stays pending, whatever other events arrive, until a playback ends. When a pending
  playback is completed, in
  whatever state the session then is, the handler calls \<open>destroy()\<close> on the call, that
  is on the SIP dialog, if \<open>hangupAfterPlayDone\<close> is true at that moment, and otherwise
  issues \<open>dialogflow_start\<close> without the \<open>welcome\<close> event; it does nothing else. It
  does not call \<open>destroy()\<close> on the endpoint, and the session has no state field
  besides the two flags.
\<close>

theorem audio_is_played_then_turn_or_hangup:
  "step (AudioProvided a) s =
      Inr (s\<lparr>waitingForPlayStart := False, playing := Suc (playing s),
             trace := trace s @ [LogInfo (''got audio file to play: '' @ path a), Play (path a)]\<rparr>)
   \<and> (run (AudioProvided a # es) s = Inr s' \<and> list_all (\<lambda>e. \<not> ends_playback e) es \<longrightarrow>
        0 < playing s')
   \<and> (0 < playing s' \<longrightarrow>
        step PlayDone s' =
          Inr (s'\<lparr>playing := playing s' - 1,
                  trace := trace s' @
                    [if hangupAfterPlayDone s' then DialogDestroy
                     else Api ''dialogflow_start'' (uuid s' @ '' rising-af044 en-US 20'')]\<rparr>))"
proof (intro conjI impI)
  show "step (AudioProvided a) s =
      Inr (s\<lparr>waitingForPlayStart := False, playing := Suc (playing s),
             trace := trace s @ [LogInfo (''got audio file to play: '' @ path a), Play (path a)]\<rparr>)"
    by (rule step_AudioProvided)
next
  assume h: "run (AudioProvided a # es) s = Inr s' \<and> list_all (\<lambda>e. \<not> ends_playback e) es"
  define s1 where "s1 = s\<lparr>waitingForPlayStart := False, playing := Suc (playing s),
             trace := trace s @ [LogInfo (''got audio file to play: '' @ path a), Play (path a)]\<rparr>"
  have "step (AudioProvided a) s = Inr s1"
    unfolding s1_def by (rule step_AudioProvided)
  with h have r: "run es s1 = Inr s'" by (simp del: step.simps)
  from run_playing [OF r] h have "playing s1 \<le> playing s'" by simp
  moreover have "0 < playing s1" by (simp add: s1_def)
  ultimately show "0 < playing s'" by simp
next
  assume "0 < playing s'"
  then show "step PlayDone s' =
          Inr (s'\<lparr>playing := playing s' - 1,
                  trace := trace s' @
                    [if hangupAfterPlayDone s' then DialogDestroy
                     else Api ''dialogflow_start'' (uuid s' @ '' rising-af044 en-US 20'')]\<rparr>)"
    by (rule step_PlayDone)
qed

theorem audio_is_played_then_turn_or_hangup_witness:
  "run [AudioProvided (Audio ''bye.wav''),
        Intent (IntentEvent ''{bye}'' (Some (QueryResult (Some (IntentBody True)))))]
     \<lparr>uuid = ''ep1'', hangupAfterPlayDone = False, waitingForPlayStart = False,
      timers = 0, playing = 0, trace = []\<rparr>
   = Inr \<lparr>uuid = ''ep1'', hangupAfterPlayDone = True, waitingForPlayStart = True,
          timers = 1, playing = 1,
          trace = [LogInfo ''got audio file to play: bye.wav'', Play ''bye.wav'',
                   LogInfo ''got intent: {bye}'', SetTimeout 1000]\<rparr>
   \<and> step PlayDone
     \<lparr>uuid = ''ep1'', hangupAfterPlayDone = True, waitingForPlayStart = True,
      timers = 1, playing = 1,
      trace = [LogInfo ''got audio file to play: bye.wav'', Play ''bye.wav'',
               LogInfo ''got intent: {bye}'', SetTimeout 1000]\<rparr>
   = Inr \<lparr>uuid = ''ep1'', hangupAfterPlayDone = True, waitingForPlayStart = True,
          timers = 1, playing = 0,
          trace = [LogInfo ''got audio file to play: bye.wav'', Play ''bye.wav'',
                   LogInfo ''got intent: {bye}'', SetTimeout 1000, DialogDestroy]\<rparr>"
proof -
  define s0 where "s0 = \<lparr>uuid = ''ep1'', hangupAfterPlayDone = False, waitingForPlayStart = False,
      timers = 0, playing = 0, trace = []\<rparr>"
  define es where "es = [Intent (IntentEvent ''{bye}'' (Some (QueryResult (Some (IntentBody True)))))]"
  define s1 where "s1 = \<lparr>uuid = ''ep1'', hangupAfterPlayDone = True, waitingForPlayStart = True,
      timers = 1, playing = 1,
      trace = [LogInfo ''got audio file to play: bye.wav'', Play ''bye.wav'',
               LogInfo ''got intent: {bye}'', SetTimeout 1000]\<rparr>"
  have r: "run (AudioProvided (Audio ''bye.wav'') # es) s0 = Inr s1"
    by (simp add: s0_def es_def s1_def handler_defs)
  have q: "list_all (\<lambda>e. \<not> ends_playback e) es" by (simp add: es_def)
  note inst = audio_is_played_then_turn_or_hangup [of "Audio ''bye.wav''" s0 es s1]
  from inst r q have p: "0 < playing s1" by blast
  from inst p have "step PlayDone s1 =
      Inr (s1\<lparr>playing := playing s1 - 1,
              trace := trace s1 @
                [if hangupAfterPlayDone s1 then DialogDestroy
                 else Api ''dialogflow_start'' (uuid s1 @ '' rising-af044 en-US 20'')]\<rparr>)"
    by blast
  then have "step PlayDone s1 =
      Inr \<lparr>uuid = ''ep1'', hangupAfterPlayDone = True, waitingForPlayStart = True,
          timers = 1, playing = 0,
          trace = [LogInfo ''got audio file to play: bye.wav'', Play ''bye.wav'',
                   LogInfo ''got intent: {bye}'', SetTimeout 1000, DialogDestroy]\<rparr>"
    by (simp add: s1_def del: step.simps)
  with r show ?thesis unfolding s0_def es_def s1_def by (intro conjI)
qed

text \<open>
  The claim as stated has the media channel destroyed when the last clip has been played.
  In the run below the call ends that way, and \<open>endpoint.destroy()\<close> is never called:
  only the listener for the caller's BYE calls it.
\<close>

theorem audio_completion_leaves_endpoint_counterexample:
  "call ''call-1'' ''sip:bot@example.com'' (Connected ''ep1'')
     [Intent (IntentEvent ''{bye}'' (Some (QueryResult (Some (IntentBody True))))),
      AudioProvided (Audio ''bye.wav''), PlayDone]
   = Inr \<lparr>uuid = ''ep1'', hangupAfterPlayDone = True, waitingForPlayStart = False,
          timers = 1, playing = 0,
          trace = [LogInfoBound ''call-1'' ''received incoming call: sip:bot@example.com'',
                   Api ''dialogflow_start'' ''ep1 rising-af044 en-US 20 welcome'',
                   LogInfo ''got intent: {bye}'', SetTimeout 1000,
                   LogInfo ''got audio file to play: bye.wav'', Play ''bye.wav'',
                   DialogDestroy]\<rparr>
   \<and> EndpointDestroy \<notin> set (effects_of (call ''call-1'' ''sip:bot@example.com'' (Connected ''ep1'')
       [Intent (IntentEvent ''{bye}'' (Some (QueryResult (Some (IntentBody True))))),
        AudioProvided (Audio ''bye.wav''), PlayDone]))"
  by (simp add: call_def effects_of_def handler_defs)

text \<open>
  C2 (as amended). An intent with \<open>end_interaction\<close> followed, after any other events,
  by an \<open>audio_provided\<close> event: the clip is played; and for as long as no further
  intent with \<open>end_interaction\<close> arrives, \<open>waitingForPlayStart\<close> is false and
  \<open>hangupAfterPlayDone\<close> is true, so that a timer that fires does nothing and a playback
  that is completed calls \<open>destroy()\<close> on the call once and does nothing else. The
  calls of \<open>destroy()\<close> on the call since the audio event are therefore as many as the
  playbacks completed since.
\<close>

theorem audio_within_delay_no_fallback:
  assumes i: "ends_interaction i"
    and pre: "run (Intent i # mid) s = Inr s1"
    and post: "list_all (\<lambda>e. \<not> is_end_intent e) post"
    and r: "run (AudioProvided a # post) s1 = Inr s2"
  shows "take 2 (since s1 s2) = [LogInfo (''got audio file to play: '' @ path a), Play (path a)]
    \<and> \<not> waitingForPlayStart s2 \<and> hangupAfterPlayDone s2
    \<and> count_list (since s1 s2) DialogDestroy = count_list post PlayDone
    \<and> (0 < timers s2 \<longrightarrow> step TimerFire s2 = Inr (s2\<lparr>timers := timers s2 - 1\<rparr>))
    \<and> (0 < playing s2 \<longrightarrow>
         step PlayDone s2 =
           Inr (s2\<lparr>playing := playing s2 - 1, trace := trace s2 @ [DialogDestroy]\<rparr>))"
proof -
  define s0 where "s0 = s\<lparr>hangupAfterPlayDone := True, waitingForPlayStart := True,
           timers := Suc (timers s),
           trace := trace s @ [LogInfo (''got intent: '' @ intent_json i), SetTimeout 1000]\<rparr>"
  have "step (Intent i) s = Inr s0"
    unfolding s0_def by (rule step_Intent_ends [OF i])
  with pre have m: "run mid s0 = Inr s1" by (simp del: step.simps)
  have "hangupAfterPlayDone s0" by (simp add: s0_def)
  from run_hangup [OF this m] have h1: "hangupAfterPlayDone s1" by blast
  define heard where "heard = [LogInfo (''got audio file to play: '' @ path a), Play (path a)]"
  define t where "t = s1\<lparr>waitingForPlayStart := False, playing := Suc (playing s1),
             trace := trace s1 @ heard\<rparr>"
  have "step (AudioProvided a) s1 = Inr t"
    unfolding t_def heard_def by (rule step_AudioProvided)
  with r have p: "run post t = Inr s2" by (simp del: step.simps)
  have t: "\<not> waitingForPlayStart t" "hangupAfterPlayDone t" "trace t = trace s1 @ heard"
    using h1 by (simp_all add: t_def)
  from run_after_audio [OF t(1,2) post p] obtain l
    where l: "\<not> waitingForPlayStart s2" "hangupAfterPlayDone s2" "trace s2 = trace t @ l"
      "count_list l DialogDestroy = count_list post PlayDone" by blast
  have sn: "since s1 s2 = heard @ l" using t(3) l(3) by (simp add: since_def)
  have len: "length heard = 2" "count_list heard DialogDestroy = 0" by (simp_all add: heard_def)
  have 1: "take 2 (since s1 s2) = heard" using len(1) by (simp add: sn)
  have 2: "count_list (since s1 s2) DialogDestroy = count_list post PlayDone"
    using len(2) l(4) by (simp add: sn)
  have 3: "0 < timers s2 \<longrightarrow> step TimerFire s2 = Inr (s2\<lparr>timers := timers s2 - 1\<rparr>)"
    using step_TimerFire [of s2] l(1) by (simp del: step.simps)
  have 4: "0 < playing s2 \<longrightarrow>
         step PlayDone s2 =
           Inr (s2\<lparr>playing := playing s2 - 1, trace := trace s2 @ [DialogDestroy]\<rparr>)"
    using step_PlayDone [of s2] l(2) by (simp del: step.simps)
  from 1 l(1,2) 2 3 4 show ?thesis unfolding heard_def by (intro conjI)
qed

theorem audio_within_delay_no_fallback_witness:
  "ends_interaction (IntentEvent ''{bye}'' (Some (QueryResult (Some (IntentBody True)))))
   \<and> run [Intent (IntentEvent ''{bye}'' (Some (QueryResult (Some (IntentBody True))))),
           EndOfUtterance ''{}'']
       \<lparr>uuid = ''ep1'', hangupAfterPlayDone = False, waitingForPlayStart = False,
        timers = 0, playing = 0, trace = []\<rparr>
     = Inr \<lparr>uuid = ''ep1'', hangupAfterPlayDone = True, waitingForPlayStart = True,
            timers = 1, playing = 0,
            trace = [LogInfo ''got intent: {bye}'', SetTimeout 1000,
                     LogInfo ''got end of utterance: {}'']\<rparr>
   \<and> run [AudioProvided (Audio ''bye.wav''), CallerBye]
       \<lparr>uuid = ''ep1'', hangupAfterPlayDone = True, waitingForPlayStart = True,
        timers = 1, playing = 0,
        trace = [LogInfo ''got intent: {bye}'', SetTimeout 1000,
                 LogInfo ''got end of utterance: {}'']\<rparr>
     = Inr \<lparr>uuid = ''ep1'', hangupAfterPlayDone = True, waitingForPlayStart = False,
            timers = 1, playing = 1,
            trace = [LogInfo ''got intent: {bye}'', SetTimeout 1000,
                     LogInfo ''got end of utterance: {}'',
                     LogInfo ''got audio file to play: bye.wav'', Play ''bye.wav'',
                     LogInfo ''got BYE from caller, hangup'', EndpointDestroy]\<rparr>
   \<and> run [TimerFire, PlayDone]
       \<lparr>uuid = ''ep1'', hangupAfterPlayDone = True, waitingForPlayStart = False,
        timers = 1, playing = 1,
        trace = [LogInfo ''got intent: {bye}'', SetTimeout 1000,
                 LogInfo ''got end of utterance: {}'',
                 LogInfo ''got audio file to play: bye.wav'', Play ''bye.wav'',
                 LogInfo ''got BYE from caller, hangup'', EndpointDestroy]\<rparr>
     = Inr \<lparr>uuid = ''ep1'', hangupAfterPlayDone = True, waitingForPlayStart = False,
            timers = 0, playing = 0,
            trace = [LogInfo ''got intent: {bye}'', SetTimeout 1000,
                     LogInfo ''got end of utterance: {}'',
                     LogInfo ''got audio file to play: bye.wav'', Play ''bye.wav'',
                     LogInfo ''got BYE from caller, hangup'', EndpointDestroy,
                     DialogDestroy]\<rparr>"
proof -
  define bye where "bye = IntentEvent ''{bye}'' (Some (QueryResult (Some (IntentBody True))))"
  define s0 where "s0 = \<lparr>uuid = ''ep1'', hangupAfterPlayDone = False, waitingForPlayStart = False,
        timers = 0, playing = 0, trace = []\<rparr>"
  define s1 where "s1 = \<lparr>uuid = ''ep1'', hangupAfterPlayDone = True, waitingForPlayStart = True,
        timers = 1, playing = 0,
        trace = [LogInfo ''got intent: {bye}'', SetTimeout 1000,
                 LogInfo ''got end of utterance: {}'']\<rparr>"
  define s2 where "s2 = \<lparr>uuid = ''ep1'', hangupAfterPlayDone = True, waitingForPlayStart = False,
        timers = 1, playing = 1,
        trace = [LogInfo ''got intent: {bye}'', SetTimeout 1000,
                 LogInfo ''got end of utterance: {}'',
                 LogInfo ''got audio file to play: bye.wav'', Play ''bye.wav'',
                 LogInfo ''got BYE from caller, hangup'', EndpointDestroy]\<rparr>"
  have e: "ends_interaction bye" by (simp add: bye_def ends_interaction_def)
  have pre: "run (Intent bye # [EndOfUtterance ''{}'']) s0 = Inr s1"
    by (simp add: bye_def s0_def s1_def handler_defs)
  have post: "list_all (\<lambda>e. \<not> is_end_intent e) [CallerBye]" by simp
  have r: "run (AudioProvided (Audio ''bye.wav'') # [CallerBye]) s1 = Inr s2"
    by (simp add: s1_def s2_def handler_defs)
  note inst = audio_within_delay_no_fallback [OF e pre post r]
  have tp: "0 < timers s2" "0 < playing (s2\<lparr>timers := timers s2 - 1\<rparr>)" by (simp_all add: s2_def)
  from inst tp(1) have f: "step TimerFire s2 = Inr (s2\<lparr>timers := timers s2 - 1\<rparr>)" by blast
  have "step PlayDone (s2\<lparr>timers := timers s2 - 1\<rparr>) =
      Inr \<lparr>uuid = ''ep1'', hangupAfterPlayDone = True, waitingForPlayStart = False,
            timers = 0, playing = 0,
            trace = [LogInfo ''got intent: {bye}'', SetTimeout 1000,
                     LogInfo ''got end of utterance: {}'',
                     LogInfo ''got audio file to play: bye.wav'', Play ''bye.wav'',
                     LogInfo ''got BYE from caller, hangup'', EndpointDestroy,
                     DialogDestroy]\<rparr>"
    by (simp add: s2_def handler_defs)
  with f have "run [TimerFire, PlayDone] s2 =
      Inr \<lparr>uuid = ''ep1'', hangupAfterPlayDone = True, waitingForPlayStart = False,
            timers = 0, playing = 0,
            trace = [LogInfo ''got intent: {bye}'', SetTimeout 1000,
                     LogInfo ''got end of utterance: {}'',
                     LogInfo ''got audio file to play: bye.wav'', Play ''bye.wav'',
                     LogInfo ''got BYE from caller, hangup'', EndpointDestroy,
                     DialogDestroy]\<rparr>"
    by (simp del: step.simps)
  with e pre r show ?thesis unfolding bye_def s0_def s1_def s2_def by simp
qed

text \<open>
  The claim as stated holds for every event sequence. In the first run below a second
  intent with \<open>end_interaction\<close> arrives while the clip is played: the timer of the
  first intent then finds \<open>waitingForPlayStart\<close> true and destroys the call, before
  the end of the playback destroys it again. In the second run the playback is
  rejected: the timer finds the flag false, nothing of \<open>handleAudio\<close> runs after the
  \<open>await\<close>, and the call is not destroyed at all.
\<close>

theorem audio_within_delay_counterexample:
  "run [Intent (IntentEvent ''{bye}'' (Some (QueryResult (Some (IntentBody True))))),
        AudioProvided (Audio ''bye.wav''),
        Intent (IntentEvent ''{bye}'' (Some (QueryResult (Some (IntentBody True))))),
        TimerFire, PlayDone, TimerFire]
     \<lparr>uuid = ''ep1'', hangupAfterPlayDone = False, waitingForPlayStart = False,
      timers = 0, playing = 0, trace = []\<rparr>
   = Inr \<lparr>uuid = ''ep1'', hangupAfterPlayDone = True, waitingForPlayStart = True,
          timers = 0, playing = 0,
          trace = [LogInfo ''got intent: {bye}'', SetTimeout 1000,
                   LogInfo ''got audio file to play: bye.wav'', Play ''bye.wav'',
                   LogInfo ''got intent: {bye}'', SetTimeout 1000,
                   DialogDestroy, DialogDestroy, DialogDestroy]\<rparr>
   \<and> run [Intent (IntentEvent ''{bye}'' (Some (QueryResult (Some (IntentBody True))))),
          AudioProvided (Audio ''bye.wav''), PlayRejected, TimerFire]
     \<lparr>uuid = ''ep1'', hangupAfterPlayDone = False, waitingForPlayStart = False,
      timers = 0, playing = 0, trace = []\<rparr>
   = Inr \<lparr>uuid = ''ep1'', hangupAfterPlayDone = True, waitingForPlayStart = False,
          timers = 0, playing = 0,
          trace = [LogInfo ''got intent: {bye}'', SetTimeout 1000,
                   LogInfo ''got audio file to play: bye.wav'', Play ''bye.wav'',
                   ConsoleLog ''Unhandled Rejection at: Promise'']\<rparr>"
  by (simp add: handler_defs)

text \<open>
  C3 (as amended). An intent with \<open>end_interaction\<close> followed by events none of which
  is \<open>audio_provided\<close>: \<open>waitingForPlayStart\<close> is still true, so a timer that fires
  calls \<open>destroy()\<close> on the call exactly once and does nothing else. One timer is armed
  by each intent with \<open>end_interaction\<close> and each fires once. The calls of
  \<open>destroy()\<close> on the call are those of the timers that fired and of the playbacks,
  started earlier, that were completed. The endpoint's \<open>destroy()\<close> is called once for
  each BYE of the caller and by nothing else, the fallback included.
\<close>

theorem fallback_destroys_call_once:
  assumes i: "ends_interaction i"
    and na: "list_all (\<lambda>e. \<not> is_audio e) es"
    and r: "run (Intent i # es) s = Inr s'"
  shows "waitingForPlayStart s'
    \<and> (0 < timers s' \<longrightarrow>
         step TimerFire s' =
           Inr (s'\<lparr>timers := timers s' - 1, trace := trace s' @ [DialogDestroy]\<rparr>))
    \<and> timers s' + count_list es TimerFire = Suc (timers s) + length (filter is_end_intent es)
    \<and> count_list (since s s') DialogDestroy = count_list es TimerFire + count_list es PlayDone
    \<and> count_list (since s s') EndpointDestroy = count_list es CallerBye"
proof -
  define armed where "armed = [LogInfo (''got intent: '' @ intent_json i), SetTimeout 1000]"
  define s0 where "s0 = s\<lparr>hangupAfterPlayDone := True, waitingForPlayStart := True,
           timers := Suc (timers s), trace := trace s @ armed\<rparr>"
  have "step (Intent i) s = Inr s0"
    unfolding s0_def armed_def by (rule step_Intent_ends [OF i])
  with r have m: "run es s0 = Inr s'" by (simp del: step.simps)
  have s0: "waitingForPlayStart s0" "hangupAfterPlayDone s0" "timers s0 = Suc (timers s)"
    "trace s0 = trace s @ armed"
    by (simp_all add: s0_def)
  from run_no_audio [OF s0(1,2) na m] obtain l
    where l: "waitingForPlayStart s'"
      "timers s' + count_list es TimerFire = timers s0 + length (filter is_end_intent es)"
      "trace s' = trace s0 @ l"
      "count_list l DialogDestroy = count_list es TimerFire + count_list es PlayDone"
      "count_list l EndpointDestroy = count_list es CallerBye" by blast
  have sn: "since s s' = armed @ l" using s0(4) l(3) by (simp add: since_def)
  have a: "count_list armed DialogDestroy = 0" "count_list armed EndpointDestroy = 0"
    by (simp_all add: armed_def)
  have 1: "0 < timers s' \<longrightarrow>
         step TimerFire s' =
           Inr (s'\<lparr>timers := timers s' - 1, trace := trace s' @ [DialogDestroy]\<rparr>)"
    using step_TimerFire [of s'] l(1) by (simp del: step.simps)
  have 2: "timers s' + count_list es TimerFire = Suc (timers s) + length (filter is_end_intent es)"
    using l(2) s0(3) by simp
  have 3: "count_list (since s s') DialogDestroy = count_list es TimerFire + count_list es PlayDone"
    using a(1) l(4) by (simp add: sn)
  have 4: "count_list (since s s') EndpointDestroy = count_list es CallerBye"
    using a(2) l(5) by (simp add: sn)
  from l(1) 1 2 3 4 show ?thesis by (intro conjI)
qed

theorem fallback_destroys_call_once_witness:
  "ends_interaction (IntentEvent ''{bye}'' (Some (QueryResult (Some (IntentBody True)))))
   \<and> run [Intent (IntentEvent ''{bye}'' (Some (QueryResult (Some (IntentBody True))))),
           EndOfUtterance ''{}'', CallerBye]
       \<lparr>uuid = ''ep1'', hangupAfterPlayDone = False, waitingForPlayStart = False,
        timers = 0, playing = 0, trace = []\<rparr>
     = Inr \<lparr>uuid = ''ep1'', hangupAfterPlayDone = True, waitingForPlayStart = True,
            timers = 1, playing = 0,
            trace = [LogInfo ''got intent: {bye}'', SetTimeout 1000,
                     LogInfo ''got end of utterance: {}'',
                     LogInfo ''got BYE from caller, hangup'', EndpointDestroy]\<rparr>
   \<and> step TimerFire
       \<lparr>uuid = ''ep1'', hangupAfterPlayDone = True, waitingForPlayStart = True,
        timers = 1, playing = 0,
        trace = [LogInfo ''got intent: {bye}'', SetTimeout 1000,
                 LogInfo ''got end of utterance: {}'',
                 LogInfo ''got BYE from caller, hangup'', EndpointDestroy]\<rparr>
     = Inr \<lparr>uuid = ''ep1'', hangupAfterPlayDone = True, waitingForPlayStart = True,
            timers = 0, playing = 0,
            trace = [LogInfo ''got intent: {bye}'', SetTimeout 1000,
                     LogInfo ''got end of utterance: {}'',
                     LogInfo ''got BYE from caller, hangup'', EndpointDestroy,
                     DialogDestroy]\<rparr>"
proof -
  define bye where "bye = IntentEvent ''{bye}'' (Some (QueryResult (Some (IntentBody True))))"
  define s0 where "s0 = \<lparr>uuid = ''ep1'', hangupAfterPlayDone = False, waitingForPlayStart = False,
        timers = 0, playing = 0, trace = []\<rparr>"
  define s1 where "s1 = \<lparr>uuid = ''ep1'', hangupAfterPlayDone = True, waitingForPlayStart = True,
        timers = 1, playing = 0,
        trace = [LogInfo ''got intent: {bye}'', SetTimeout 1000,
                 LogInfo ''got end of utterance: {}'',
                 LogInfo ''got BYE from caller, hangup'', EndpointDestroy]\<rparr>"
  have e: "ends_interaction bye" by (simp add: bye_def ends_interaction_def)
  have na: "list_all (\<lambda>e. \<not> is_audio e) [EndOfUtterance ''{}'', CallerBye]" by simp
  have r: "run (Intent bye # [EndOfUtterance ''{}'', CallerBye]) s0 = Inr s1"
    by (simp add: bye_def s0_def s1_def handler_defs)
  note inst = fallback_destroys_call_once [OF e na r]
  have "0 < timers s1" by (simp add: s1_def)
  with inst have "step TimerFire s1 =
      Inr (s1\<lparr>timers := timers s1 - 1, trace := trace s1 @ [DialogDestroy]\<rparr>)" by blast
  then have "step TimerFire s1 =
      Inr \<lparr>uuid = ''ep1'', hangupAfterPlayDone = True, waitingForPlayStart = True,
            timers = 0, playing = 0,
            trace = [LogInfo ''got intent: {bye}'', SetTimeout 1000,
                     LogInfo ''got end of utterance: {}'',
                     LogInfo ''got BYE from caller, hangup'', EndpointDestroy,
                     DialogDestroy]\<rparr>"
    by (simp add: s1_def del: step.simps)
  with e r show ?thesis unfolding bye_def s0_def s1_def by simp
qed

text \<open>
  The claim as stated has the media channel's \<open>destroy()\<close> called exactly once on
  the fallback path. With no hangup from the caller it is called zero times.
\<close>

theorem fallback_leaves_endpoint_counterexample:
  "call ''call-1'' ''sip:bot@example.com'' (Connected ''ep1'')
     [Intent (IntentEvent ''{bye}'' (Some (QueryResult (Some (IntentBody True))))), TimerFire]
   = Inr \<lparr>uuid = ''ep1'', hangupAfterPlayDone = True, waitingForPlayStart = True,
          timers = 0, playing = 0,
          trace = [LogInfoBound ''call-1'' ''received incoming call: sip:bot@example.com'',
                   Api ''dialogflow_start'' ''ep1 rising-af044 en-US 20 welcome'',
                   LogInfo ''got intent: {bye}'', SetTimeout 1000, DialogDestroy]\<rparr>
   \<and> count_list (effects_of (call ''call-1'' ''sip:bot@example.com'' (Connected ''ep1'')
       [Intent (IntentEvent ''{bye}'' (Some (QueryResult (Some (IntentBody True))))), TimerFire]))
       EndpointDestroy = 0"
  by (simp add: call_def effects_of_def handler_defs)

text \<open>
  C4 (as amended). In every state of the session, also with a playback or a timer
  pending, the listener for the caller's BYE logs and calls \<open>destroy()\<close> on the
  endpoint exactly once. It does so unconditionally, without looking whether the
  endpoint was destroyed before, and it records nothing: both flags and the pending
  callbacks are as before.
\<close>

theorem caller_hangup_destroys_endpoint:
  "step CallerBye s =
     Inr (s\<lparr>trace := trace s @ [LogInfo ''got BYE from caller, hangup'', EndpointDestroy]\<rparr>)
   \<and> count_list (effects_of (step CallerBye s)) EndpointDestroy =
       count_list (trace s) EndpointDestroy + 1"
  by (simp add: onDialogDestroy_def emit_def effects_of_def)

text \<open>
  The claim as stated makes a hangup a no-op on a destroyed media channel and has it
  move the session to a terminated state. A second BYE calls \<open>endpoint.destroy()\<close> a
  second time; and a playback that ends after the hangup still issues
  \<open>dialogflow_start\<close>, as in a session that goes on.
\<close>

theorem caller_hangup_not_recorded_counterexample:
  "call ''call-1'' ''sip:bot@example.com'' (Connected ''ep1'') [CallerBye, CallerBye]
   = Inr \<lparr>uuid = ''ep1'', hangupAfterPlayDone = False, waitingForPlayStart = False,
          timers = 0, playing = 0,
          trace = [LogInfoBound ''call-1'' ''received incoming call: sip:bot@example.com'',
                   Api ''dialogflow_start'' ''ep1 rising-af044 en-US 20 welcome'',
                   LogInfo ''got BYE from caller, hangup'', EndpointDestroy,
                   LogInfo ''got BYE from caller, hangup'', EndpointDestroy]\<rparr>
   \<and> call ''call-1'' ''sip:bot@example.com'' (Connected ''ep1'')
       [AudioProvided (Audio ''welcome.wav''), CallerBye, PlayDone]
   = Inr \<lparr>uuid = ''ep1'', hangupAfterPlayDone = False, waitingForPlayStart = False,
          timers = 0, playing = 0,
          trace = [LogInfoBound ''call-1'' ''received incoming call: sip:bot@example.com'',
                   Api ''dialogflow_start'' ''ep1 rising-af044 en-US 20 welcome'',
                   LogInfo ''got audio file to play: welcome.wav'', Play ''welcome.wav'',
                   LogInfo ''got BYE from caller, hangup'', EndpointDestroy,
                   Api ''dialogflow_start'' ''ep1 rising-af044 en-US 20'']\<rparr>"
  by (simp add: call_def handler_defs)

text \<open>
  C5 (as amended). No handler looks whether the call has ended. In every state, ended
  or not, the events other than \<open>audio_provided\<close> and the end of a playback issue
  neither \<open>dialogflow_start\<close> nor \<open>play\<close>; an \<open>audio_provided\<close> event always
  issues \<open>play\<close>, and the end of that playback issues \<open>destroy()\<close> on the call
  or \<open>dialogflow_start\<close>, according to \<open>hangupAfterPlayDone\<close>.
\<close>

theorem only_audio_leads_to_play_or_turn:
  "(step e s = Inr s' \<and> \<not> is_audio e \<and> e \<noteq> PlayDone \<longrightarrow>
      filter (\<lambda>x. is_api x \<or> is_play x) (since s s') = [])
   \<and> (\<exists>t. step (AudioProvided a) s = Inr t \<and> filter is_play (since s t) = [Play (path a)])
   \<and> (0 < playing s \<longrightarrow>
       (\<exists>t. step PlayDone s = Inr t \<and>
          since s t = [if hangupAfterPlayDone s then DialogDestroy
                       else Api ''dialogflow_start'' (uuid s @ '' rising-af044 en-US 20'')]))"
proof (intro conjI impI)
  assume a: "step e s = Inr s' \<and> \<not> is_audio e \<and> e \<noteq> PlayDone"
  then obtain l where "trace s' = trace s @ l" "filter (\<lambda>x. is_api x \<or> is_play x) l = []"
    using step_no_turn_no_play [of e s s'] by blast
  then show "filter (\<lambda>x. is_api x \<or> is_play x) (since s s') = []"
    by (simp add: since_def)
next
  show "\<exists>t. step (AudioProvided a) s = Inr t \<and> filter is_play (since s t) = [Play (path a)]"
    by (simp add: step_AudioProvided since_def del: step.simps)
next
  assume "0 < playing s"
  from step_PlayDone [OF this]
  show "\<exists>t. step PlayDone s = Inr t \<and>
          since s t = [if hangupAfterPlayDone s then DialogDestroy
                       else Api ''dialogflow_start'' (uuid s @ '' rising-af044 en-US 20'')]"
    by (simp add: since_def del: step.simps)
qed

theorem only_audio_leads_to_play_or_turn_witness:
  "step TimerFire
     \<lparr>uuid = ''ep1'', hangupAfterPlayDone = True, waitingForPlayStart = True,
      timers = 1, playing = 1, trace = [EndpointDestroy]\<rparr>
   = Inr \<lparr>uuid = ''ep1'', hangupAfterPlayDone = True, waitingForPlayStart = True,
          timers = 0, playing = 1, trace = [EndpointDestroy, DialogDestroy]\<rparr>
   \<and> filter (\<lambda>x. is_api x \<or> is_play x)
       (since \<lparr>uuid = ''ep1'', hangupAfterPlayDone = True, waitingForPlayStart = True,
               timers = 1, playing = 1, trace = [EndpointDestroy]\<rparr>
         \<lparr>uuid = ''ep1'', hangupAfterPlayDone = True, waitingForPlayStart = True,
          timers = 0, playing = 1, trace = [EndpointDestroy, DialogDestroy]\<rparr>) = []
   \<and> step PlayDone
     \<lparr>uuid = ''ep1'', hangupAfterPlayDone = True, waitingForPlayStart = True,
      timers = 1, playing = 1, trace = [EndpointDestroy]\<rparr>
   = Inr \<lparr>uuid = ''ep1'', hangupAfterPlayDone = True, waitingForPlayStart = True,
          timers = 1, playing = 0, trace = [EndpointDestroy, DialogDestroy]\<rparr>"
  using only_audio_leads_to_play_or_turn
    [of TimerFire
      "\<lparr>uuid = ''ep1'', hangupAfterPlayDone = True, waitingForPlayStart = True,
        timers = 1, playing = 1, trace = [EndpointDestroy]\<rparr>"
      "\<lparr>uuid = ''ep1'', hangupAfterPlayDone = True, waitingForPlayStart = True,
        timers = 0, playing = 1, trace = [EndpointDestroy, DialogDestroy]\<rparr>"
      "Audio ''late.wav''"]
  by (simp add: handler_defs since_def)

text \<open>
  The claim as stated has no \<open>play\<close> and no start of a turn after the call has
  ended. An \<open>audio_provided\<close> event that arrives after the fallback has destroyed the
  call is played; one that arrives after the caller's hangup is played and followed by
  \<open>dialogflow_start\<close>.
\<close>

theorem stray_audio_is_played_counterexample:
  "call ''call-1'' ''sip:bot@example.com'' (Connected ''ep1'')
     [Intent (IntentEvent ''{bye}'' (Some (QueryResult (Some (IntentBody True))))), TimerFire,
      AudioProvided (Audio ''late.wav'')]
   = Inr \<lparr>uuid = ''ep1'', hangupAfterPlayDone = True, waitingForPlayStart = False,
          timers = 0, playing = 1,
          trace = [LogInfoBound ''call-1'' ''received incoming call: sip:bot@example.com'',
                   Api ''dialogflow_start'' ''ep1 rising-af044 en-US 20 welcome'',
                   LogInfo ''got intent: {bye}'', SetTimeout 1000, DialogDestroy,
                   LogInfo ''got audio file to play: late.wav'', Play ''late.wav'']\<rparr>
   \<and> call ''call-1'' ''sip:bot@example.com'' (Connected ''ep1'')
       [CallerBye, AudioProvided (Audio ''late.wav''), PlayDone]
   = Inr \<lparr>uuid = ''ep1'', hangupAfterPlayDone = False, waitingForPlayStart = False,
          timers = 0, playing = 0,
          trace = [LogInfoBound ''call-1'' ''received incoming call: sip:bot@example.com'',
                   Api ''dialogflow_start'' ''ep1 rising-af044 en-US 20 welcome'',
                   LogInfo ''got BYE from caller, hangup'', EndpointDestroy,
                   LogInfo ''got audio file to play: late.wav'', Play ''late.wav'',
                   Api ''dialogflow_start'' ''ep1 rising-af044 en-US 20'']\<rparr>"
  by (simp add: call_def handler_defs)

text \<open>
  C6. An intent whose \<open>end_interaction\<close> is true sets \<open>hangupAfterPlayDone\<close> and
  \<open>waitingForPlayStart\<close> and arms one timer of 1000 ms. When a pending timer fires it is
  used up, and it calls \<open>destroy()\<close> on the call if and only if \<open>waitingForPlayStart\<close>
  is true at that moment; with no timer pending nothing can fire. An intent whose
  \<open>end_interaction\<close> is false is logged and changes nothing else.
\<close>

theorem intent_arms_fallback:
  "(ends_interaction i \<longrightarrow>
      step (Intent i) s =
        Inr (s\<lparr>hangupAfterPlayDone := True, waitingForPlayStart := True,
               timers := Suc (timers s),
               trace := trace s @ [LogInfo (''got intent: '' @ intent_json i), SetTimeout 1000]\<rparr>))
   \<and> (quiet (Intent i) \<longrightarrow>
      step (Intent i) s =
        Inr (s\<lparr>trace := trace s @ [LogInfo (''got intent: '' @ intent_json i)]\<rparr>))
   \<and> (0 < timers s \<longrightarrow>
      step TimerFire s =
        Inr (s\<lparr>timers := timers s - 1,
               trace := trace s @ (if waitingForPlayStart s then [DialogDestroy] else [])\<rparr>))
   \<and> (timers s = 0 \<longrightarrow> step TimerFire s = Inl (NothingPending, trace s))"
  using step_Intent_ends [of i s] step_Intent_quiet [of i s] step_TimerFire [of s]
  by simp

theorem intent_arms_fallback_witness:
  "ends_interaction (IntentEvent ''{bye}'' (Some (QueryResult (Some (IntentBody True)))))
   \<and> run [Intent (IntentEvent ''{bye}'' (Some (QueryResult (Some (IntentBody True))))),
           TimerFire]
       \<lparr>uuid = ''ep1'', hangupAfterPlayDone = False, waitingForPlayStart = False,
        timers = 0, playing = 0, trace = []\<rparr>
     = Inr \<lparr>uuid = ''ep1'', hangupAfterPlayDone = True, waitingForPlayStart = True,
            timers = 0, playing = 0,
            trace = [LogInfo ''got intent: {bye}'', SetTimeout 1000, DialogDestroy]\<rparr>
   \<and> quiet (Intent (IntentEvent ''{more}'' (Some (QueryResult (Some (IntentBody False))))))
   \<and> run [Intent (IntentEvent ''{more}'' (Some (QueryResult (Some (IntentBody False))))),
           TimerFire]
       \<lparr>uuid = ''ep1'', hangupAfterPlayDone = False, waitingForPlayStart = False,
        timers = 0, playing = 0, trace = []\<rparr>
     = Inl (NothingPending, [LogInfo ''got intent: {more}''])"
  using
    intent_arms_fallback [of "IntentEvent ''{bye}'' (Some (QueryResult (Some (IntentBody True))))"
      "\<lparr>uuid = ''ep1'', hangupAfterPlayDone = False, waitingForPlayStart = False,
        timers = 0, playing = 0, trace = []\<rparr>"]
    intent_arms_fallback [of "IntentEvent ''{more}'' (Some (QueryResult (Some (IntentBody False))))"
      "\<lparr>uuid = ''ep1'', hangupAfterPlayDone = False, waitingForPlayStart = False,
        timers = 0, playing = 0, trace = []\<rparr>"]
    intent_arms_fallback [of "IntentEvent ''{bye}'' (Some (QueryResult (Some (IntentBody True))))"
      "\<lparr>uuid = ''ep1'', hangupAfterPlayDone = True, waitingForPlayStart = True,
        timers = Suc 0, playing = 0,
        trace = [LogInfo ''got intent: {bye}'', SetTimeout 1000]\<rparr>"]
    intent_arms_fallback [of "IntentEvent ''{more}'' (Some (QueryResult (Some (IntentBody False))))"
      "\<lparr>uuid = ''ep1'', hangupAfterPlayDone = False, waitingForPlayStart = False,
        timers = 0, playing = 0, trace = [LogInfo ''got intent: {more}'']\<rparr>"]
  by (simp add: ends_interaction_def del: step.simps)

text \<open>
  C7. A \<open>dialogflow::error\<close> event delivered to the session is logged and nothing else
  happens: the flags, the pending callbacks and the endpoint's uuid are unchanged, and
  the only effect added is the log line, so the call is not terminated.
\<close>

theorem dialog_error_logs_only:
  "step (DialogflowError detail) s =
     Inr (s\<lparr>trace := trace s @ [LogInfo (''got error: '' @ detail)]\<rparr>)"
  by (simp add: handleError_def emit_def)

text \<open>
  C8. \<open>handleInvite\<close> issues \<open>dialogflow_start\<close> with the agent \<open>rising-af044\<close>,
  the language \<open>en-US\<close>, the timeout \<open>20\<close> and the event \<open>welcome\<close>. Whatever
  events follow, every later \<open>endpoint.api\<close> call of the session is
  \<open>dialogflow_start\<close> with the same agent, language and timeout and without the event:
  the first argument string ends in \<open>welcome\<close>, the later one does not.
\<close>

theorem greeting_on_first_turn_only:
  "call callId uri (Connected ep) [] =
     Inr \<lparr>uuid = ep, hangupAfterPlayDone = False, waitingForPlayStart = False,
          timers = 0, playing = 0,
          trace = [LogInfoBound callId (''received incoming call: '' @ uri),
                   Api ''dialogflow_start'' (ep @ '' rising-af044 en-US 20 welcome'')]\<rparr>
   \<and> (call callId uri (Connected ep) es = Inr s' \<longrightarrow>
        filter is_api (trace s') =
           Api ''dialogflow_start'' (ep @ '' rising-af044 en-US 20 welcome'')
           # replicate (length (filter is_api (trace s')) - 1)
               (Api ''dialogflow_start'' (ep @ '' rising-af044 en-US 20'')))
   \<and> suffix '' welcome'' (ep @ '' rising-af044 en-US 20 welcome'')
   \<and> \<not> suffix '' welcome'' (ep @ '' rising-af044 en-US 20'')"
proof (intro conjI impI)
  show "call callId uri (Connected ep) [] =
     Inr \<lparr>uuid = ep, hangupAfterPlayDone = False, waitingForPlayStart = False,
          timers = 0, playing = 0,
          trace = [LogInfoBound callId (''received incoming call: '' @ uri),
                   Api ''dialogflow_start'' (ep @ '' rising-af044 en-US 20 welcome'')]\<rparr>"
    by (simp add: call_def handleInvite_def)
next
  assume c: "call callId uri (Connected ep) es = Inr s'"
  define first where "first = Api ''dialogflow_start'' (ep @ '' rising-af044 en-US 20 welcome'')"
  define later where "later = Api ''dialogflow_start'' (ep @ '' rising-af044 en-US 20'')"
  define s0 where "s0 = \<lparr>uuid = ep, hangupAfterPlayDone = False, waitingForPlayStart = False,
          timers = 0, playing = 0,
          trace = [LogInfoBound callId (''received incoming call: '' @ uri), first]\<rparr>"
  from c have "run es s0 = Inr s'" by (simp add: call_def handleInvite_def s0_def first_def)
  from run_api [OF this] obtain l n where tr: "trace s' = trace s0 @ l"
    and f: "filter is_api l =
      replicate n (Api ''dialogflow_start'' (uuid s0 @ '' rising-af044 en-US 20''))"
    by blast
  have u: "Api ''dialogflow_start'' (uuid s0 @ '' rising-af044 en-US 20'') = later"
    by (simp add: s0_def later_def)
  have "filter is_api (trace s0) = [first]" by (simp add: s0_def first_def)
  with tr f u have e: "filter is_api (trace s') = first # replicate n later" by simp
  then have "length (filter is_api (trace s')) - 1 = n" by simp
  with e have "filter is_api (trace s') =
      first # replicate (length (filter is_api (trace s')) - 1) later" by simp
  then show "filter is_api (trace s') =
           Api ''dialogflow_start'' (ep @ '' rising-af044 en-US 20 welcome'')
           # replicate (length (filter is_api (trace s')) - 1)
               (Api ''dialogflow_start'' (ep @ '' rising-af044 en-US 20''))"
    unfolding first_def later_def .
next
  show "suffix '' welcome'' (ep @ '' rising-af044 en-US 20 welcome'')"
    by (rule suffixI [of _ "ep @ '' rising-af044 en-US 20''"]) simp
next
  show "\<not> suffix '' welcome'' (ep @ '' rising-af044 en-US 20'')"
    by (rule not_suffix_welcome)
qed

theorem greeting_on_first_turn_only_witness:
  "call ''call-1'' ''sip:bot@example.com'' (Connected ''ep1'')
     [AudioProvided (Audio ''welcome.wav''), PlayDone,
      Intent (IntentEvent ''{more}'' (Some (QueryResult (Some (IntentBody False))))),
      AudioProvided (Audio ''response1.wav''), PlayDone]
   = Inr \<lparr>uuid = ''ep1'', hangupAfterPlayDone = False, waitingForPlayStart = False,
          timers = 0, playing = 0,
          trace = [LogInfoBound ''call-1'' ''received incoming call: sip:bot@example.com'',
                   Api ''dialogflow_start'' ''ep1 rising-af044 en-US 20 welcome'',
                   LogInfo ''got audio file to play: welcome.wav'', Play ''welcome.wav'',
                   Api ''dialogflow_start'' ''ep1 rising-af044 en-US 20'',
                   LogInfo ''got intent: {more}'',
                   LogInfo ''got audio file to play: response1.wav'', Play ''response1.wav'',
                   Api ''dialogflow_start'' ''ep1 rising-af044 en-US 20'']\<rparr>
   \<and> filter is_api (effects_of (call ''call-1'' ''sip:bot@example.com'' (Connected ''ep1'')
       [AudioProvided (Audio ''welcome.wav''), PlayDone,
        Intent (IntentEvent ''{more}'' (Some (QueryResult (Some (IntentBody False))))),
        AudioProvided (Audio ''response1.wav''), PlayDone]))
     = [Api ''dialogflow_start'' ''ep1 rising-af044 en-US 20 welcome'',
        Api ''dialogflow_start'' ''ep1 rising-af044 en-US 20'',
        Api ''dialogflow_start'' ''ep1 rising-af044 en-US 20'']"
proof -
  define evs where "evs = [AudioProvided (Audio ''welcome.wav''), PlayDone,
      Intent (IntentEvent ''{more}'' (Some (QueryResult (Some (IntentBody False))))),
      AudioProvided (Audio ''response1.wav''), PlayDone]"
  define fin where "fin = \<lparr>uuid = ''ep1'', hangupAfterPlayDone = False, waitingForPlayStart = False,
          timers = 0, playing = 0,
          trace = [LogInfoBound ''call-1'' ''received incoming call: sip:bot@example.com'',
                   Api ''dialogflow_start'' ''ep1 rising-af044 en-US 20 welcome'',
                   LogInfo ''got audio file to play: welcome.wav'', Play ''welcome.wav'',
                   Api ''dialogflow_start'' ''ep1 rising-af044 en-US 20'',
                   LogInfo ''got intent: {more}'',
                   LogInfo ''got audio file to play: response1.wav'', Play ''response1.wav'',
                   Api ''dialogflow_start'' ''ep1 rising-af044 en-US 20'']\<rparr>"
  have c: "call ''call-1'' ''sip:bot@example.com'' (Connected ''ep1'') evs = Inr fin"
    by (simp add: evs_def fin_def call_def handler_defs)
  have len: "length (filter is_api (trace fin)) - 1 = 2"
    by (simp add: fin_def)
  from greeting_on_first_turn_only
    [of "''call-1''" "''sip:bot@example.com''" "''ep1''" evs fin, THEN conjunct2, THEN conjunct1,
      rule_format, OF c]
  have "filter is_api (trace fin) =
      Api ''dialogflow_start'' (''ep1'' @ '' rising-af044 en-US 20 welcome'')
      # replicate 2 (Api ''dialogflow_start'' (''ep1'' @ '' rising-af044 en-US 20''))"
    unfolding len .
  then have "filter is_api (effects_of (call ''call-1'' ''sip:bot@example.com'' (Connected ''ep1'') evs))
     = [Api ''dialogflow_start'' ''ep1 rising-af044 en-US 20 welcome'',
        Api ''dialogflow_start'' ''ep1 rising-af044 en-US 20'',
        Api ''dialogflow_start'' ''ep1 rising-af044 en-US 20'']"
    unfolding c effects_of_def by (simp add: numeral_2_eq_2)
  with c show ?thesis unfolding evs_def fin_def by (rule conjI)
qed

text \<open>
  C9. A transcription is logged if and only if \<open>recognition_result.is_final\<close> is true,
  an end of utterance is always logged, and neither changes anything but the log: both
  flags and the pending callbacks stay as they are and no command is issued. (A
  transcription without a \<open>recognition_result\<close> makes the handler throw before it does
  anything.)
\<close>

theorem transcription_and_end_of_utterance_log_only:
  "(recognition_result t = Some r \<longrightarrow>
      step (Transcription t) s =
        Inr (s\<lparr>trace := trace s @
               (if is_final r then [LogInfo (''got transcription: '' @ transcription_json t)]
                else [])\<rparr>))
   \<and> (recognition_result t = None \<longrightarrow>
      step (Transcription t) s = Inl (TypeError ''is_final'', trace s))
   \<and> step (EndOfUtterance obj) s =
        Inr (s\<lparr>trace := trace s @ [LogInfo (''got end of utterance: '' @ obj)]\<rparr>)"
  by (simp add: handleTranscription_def handleEndOfUtterance_def emit_def)

theorem transcription_and_end_of_utterance_log_only_witness:
  "run [Transcription (TranscriptionEvent ''{hel}'' (Some (RecognitionResult False))),
        Transcription (TranscriptionEvent ''{hello}'' (Some (RecognitionResult True))),
        EndOfUtterance ''{}'']
     \<lparr>uuid = ''ep1'', hangupAfterPlayDone = False, waitingForPlayStart = True,
      timers = 1, playing = 0, trace = []\<rparr>
   = Inr \<lparr>uuid = ''ep1'', hangupAfterPlayDone = False, waitingForPlayStart = True,
          timers = 1, playing = 0,
          trace = [LogInfo ''got transcription: {hello}'', LogInfo ''got end of utterance: {}'']\<rparr>
   \<and> step (Transcription (TranscriptionEvent ''{}'' None))
     \<lparr>uuid = ''ep1'', hangupAfterPlayDone = False, waitingForPlayStart = True,
      timers = 1, playing = 0, trace = []\<rparr>
   = Inl (TypeError ''is_final'', [])"
  using
    transcription_and_end_of_utterance_log_only
      [of "TranscriptionEvent ''{hel}'' (Some (RecognitionResult False))" "RecognitionResult False"
        "\<lparr>uuid = ''ep1'', hangupAfterPlayDone = False, waitingForPlayStart = True,
          timers = 1, playing = 0, trace = []\<rparr>" "''{}''"]
    transcription_and_end_of_utterance_log_only
      [of "TranscriptionEvent ''{hello}'' (Some (RecognitionResult True))" "RecognitionResult True"
        "\<lparr>uuid = ''ep1'', hangupAfterPlayDone = False, waitingForPlayStart = True,
          timers = 1, playing = 0, trace = []\<rparr>" "''{}''"]
    transcription_and_end_of_utterance_log_only
      [of "TranscriptionEvent ''{hello}'' (Some (RecognitionResult True))" "RecognitionResult True"
        "\<lparr>uuid = ''ep1'', hangupAfterPlayDone = False, waitingForPlayStart = True,
          timers = 1, playing = 0, trace = [LogInfo ''got transcription: {hello}'']\<rparr>" "''{}''"]
    transcription_and_end_of_utterance_log_only
      [of "TranscriptionEvent ''{}'' None" "RecognitionResult True"
        "\<lparr>uuid = ''ep1'', hangupAfterPlayDone = False, waitingForPlayStart = True,
          timers = 1, playing = 0, trace = []\<rparr>" "''{}''"]
  by (simp del: step.simps)



end
